theory Spec2Isabelle
  imports Complex_Main
begin

section \<open>Budget tracker: the ledger of \<^verbatim>\<open>Budget_tracker.py\<close>\<close>

text \<open>
  The class \<^verbatim>\<open>BudgetTracker\<close> holds a balance, a list of transactions, two thresholds
  and a list of recurring transactions. Each method is embedded as a function that takes
  the object and returns the updated object together with the trace of what the method
  did to the outside (desktop notifications, Streamlit messages) and to the history.

  Conventions of the embedding:
  \<^item> Python's \<^verbatim>\<open>float\<close> amounts are read as exact numbers (\<^typ>\<open>real\<close>): rounding,
    infinities and NaN are outside the model.
  \<^item> Python's \<^verbatim>\<open>str\<close> is \<^typ>\<open>string\<close>; \<^verbatim>\<open>lower\<close>, \<^verbatim>\<open>upper\<close> and \<^verbatim>\<open>capitalize\<close>
    act on the ASCII letters and leave every other character alone.
  \<^item> \<^verbatim>\<open>datetime.datetime.now()\<close> is an input: the reading of the clock is passed in.
\<close>

subsection \<open>Strings\<close>

definition upper_letters :: string where
  "upper_letters = ''ABCDEFGHIJKLMNOPQRSTUVWXYZ''"

definition lower_letters :: string where
  "lower_letters = ''abcdefghijklmnopqrstuvwxyz''"

definition lower_char :: "char \<Rightarrow> char" where
  "lower_char c = (case map_of (zip upper_letters lower_letters) c of
                     Some d \<Rightarrow> d | None \<Rightarrow> c)"

definition upper_char :: "char \<Rightarrow> char" where
  "upper_char c = (case map_of (zip lower_letters upper_letters) c of
                     Some d \<Rightarrow> d | None \<Rightarrow> c)"

text \<open>\<^verbatim>\<open>s.lower()\<close>\<close>

definition lower :: "string \<Rightarrow> string" where
  "lower s = map lower_char s"

text \<open>\<^verbatim>\<open>s.capitalize()\<close>: the first character in upper case, the rest in lower case.\<close>

fun capitalize :: "string \<Rightarrow> string" where
  "capitalize [] = []"
| "capitalize (c # cs) = upper_char c # lower cs"

text \<open>\<^verbatim>\<open>str(n)\<close> for a non-negative integer: its decimal digits.\<close>

definition digit_char :: "nat \<Rightarrow> char" where
  "digit_char d = (''0123456789'' ! (d mod 10))"

function str_nat :: "nat \<Rightarrow> string" where
  "str_nat n = (if n < 10 then [digit_char n]
                else str_nat (n div 10) @ [digit_char (n mod 10)])"
  by pat_completeness auto
termination
  by (relation "measure (\<lambda>n. n)") auto

declare str_nat.simps [simp del]

text \<open>
  The format specification \<^verbatim>\<open>:.2f\<close> on the exact value: the magnitude is rounded to
  hundredths (a tie goes to the even neighbour), printed with a sign when the number is
  negative, at least one digit before the point and two after it.
\<close>

definition round_half_even :: "real \<Rightarrow> int" where
  "round_half_even y =
     (let f = \<lfloor>y\<rfloor>; d = y - of_int f
      in if d < 1 / 2 then f
         else if 1 / 2 < d then f + 1
         else if even f then f else f + 1)"

definition fmt2f :: "real \<Rightarrow> string" where
  "fmt2f x =
     (let q = nat (round_half_even (\<bar>x\<bar> * 100))
      in (if x < 0 then ''-'' else '''')
         @ str_nat (q div 100) @ ''.''
         @ [digit_char (q mod 100 div 10), digit_char (q mod 10)])"

subsection \<open>Data model\<close>

text \<open>The dictionary appended to \<^verbatim>\<open>self.transactions\<close>, with its three keys.\<close>

record transaction =
  amount :: real
  category :: string
  type :: string

text \<open>
  What a method does besides updating the fields, in program order:
  a call of \<^verbatim>\<open>notify_user\<close> (title, message), an append to \<^verbatim>\<open>self.transactions\<close>,
  a call of \<^verbatim>\<open>st.success\<close> and a call of \<^verbatim>\<open>st.error\<close>.
  A call of \<^verbatim>\<open>notify_user\<close> is one event whether or not the desktop notification was
  delivered.
\<close>

datatype event =
    Notify string string
  | Append transaction
  | StSuccess string
  | StError string

fun is_notify :: "event \<Rightarrow> bool" where
  "is_notify (Notify t m) = True"
| "is_notify e = False"

fun is_append :: "event \<Rightarrow> bool" where
  "is_append (Append t) = True"
| "is_append e = False"

fun has_title :: "string \<Rightarrow> event \<Rightarrow> bool" where
  "has_title ttl (Notify t m) = (t = ttl)"
| "has_title ttl e = False"

definition notifications :: "event list \<Rightarrow> event list" where
  "notifications tr = filter is_notify tr"

definition alerts :: "string \<Rightarrow> event list \<Rightarrow> event list" where
  "alerts ttl tr = filter (has_title ttl) tr"

text \<open>
  \<^verbatim>\<open>notify_user\<close>: the desktop notification is attempted once; a failure of the
  backend is caught and printed, and nothing is raised to the caller.
\<close>

definition notify_user :: "string \<Rightarrow> string \<Rightarrow> event list" where
  "notify_user ttl msg = [Notify ttl msg]"

definition large_expense_title :: string where
  "large_expense_title = ''Large Expense Alert''"

definition low_balance_title :: string where
  "low_balance_title = ''Low Balance Alert''"

definition large_expense_message :: "real \<Rightarrow> string \<Rightarrow> string" where
  "large_expense_message amt cat =
     ''A large expense of $'' @ fmt2f amt @ '' was recorded in the ''
     @ [CHR 0x27] @ cat @ [CHR 0x27] @ '' category.''"

definition low_balance_message :: "real \<Rightarrow> real \<Rightarrow> string" where
  "low_balance_message thr bal =
     ''Your balance is below the threshold ($'' @ fmt2f thr
     @ ''). Current balance: $'' @ fmt2f bal @ ''.''"

definition success_message :: "real \<Rightarrow> string \<Rightarrow> string \<Rightarrow> string" where
  "success_message amt cat ty =
     ''Transaction added: '' @ ty @ '' of $'' @ fmt2f amt @ '' in ''
     @ [CHR 0x27] @ cat @ [CHR 0x27] @ '' category.''"

definition invalid_type_message :: string where
  "invalid_type_message = ''Invalid transaction type. Use 'income' or 'expense'.''"

subsection \<open>Time\<close>

text \<open>
  A naive \<^verbatim>\<open>datetime.datetime\<close> with its seven fields. The standard library subtracts
  two of them through the proleptic Gregorian ordinal of the date and the time of day;
  the \<^verbatim>\<open>days\<close> attribute of the normalised \<^verbatim>\<open>timedelta\<close> is the floor of the
  difference in whole days (the seconds and microseconds are kept non-negative).
\<close>

record datetime =
  year :: int
  month :: int
  day :: int
  hour :: int
  minute :: int
  second :: int
  microsecond :: int

definition is_leap :: "int \<Rightarrow> bool" where
  "is_leap y = (y mod 4 = 0 \<and> (y mod 100 \<noteq> 0 \<or> y mod 400 = 0))"

definition days_before_year :: "int \<Rightarrow> int" where
  "days_before_year y = (let p = y - 1 in p * 365 + p div 4 - p div 100 + p div 400)"

definition days_in_month :: "int \<Rightarrow> int list" where
  "days_in_month y =
     [31, if is_leap y then 29 else 28, 31, 30, 31, 30, 31, 31, 30, 31, 30, 31]"

definition days_before_month :: "int \<Rightarrow> int \<Rightarrow> int" where
  "days_before_month y m = sum_list (take (nat (m - 1)) (days_in_month y))"

definition toordinal :: "datetime \<Rightarrow> int" where
  "toordinal d = days_before_year (year d) + days_before_month (year d) (month d) + day d"

definition microseconds_per_day :: int where
  "microseconds_per_day = 86400 * 1000000"

definition time_of_day :: "datetime \<Rightarrow> int" where
  "time_of_day d =
     (second d + minute d * 60 + hour d * 3600) * 1000000 + microsecond d"

text \<open>\<^verbatim>\<open>a - b\<close> in microseconds, and \<^verbatim>\<open>(a - b).days\<close>.\<close>

definition delta_microseconds :: "datetime \<Rightarrow> datetime \<Rightarrow> int" where
  "delta_microseconds a b =
     (toordinal a - toordinal b) * microseconds_per_day + (time_of_day a - time_of_day b)"

definition delta_days :: "datetime \<Rightarrow> datetime \<Rightarrow> int" where
  "delta_days a b = delta_microseconds a b div microseconds_per_day"

subsection \<open>The tracker\<close>

text \<open>
  The dictionary appended to \<^verbatim>\<open>self.recurring_transactions\<close>: the three keys of a
  transaction, the frequency and the time of the last materialisation.
\<close>

record recurring = transaction +
  frequency :: string
  last_added :: datetime

record tracker =
  balance :: real
  transactions :: "transaction list"
  balance_threshold :: real
  large_expense_threshold :: real
  recurring_transactions :: "recurring list"

text \<open>\<^verbatim>\<open>BudgetTracker.__init__\<close>\<close>

definition new_tracker :: tracker where
  "new_tracker =
     \<lparr>balance = 0, transactions = [], balance_threshold = 100,
      large_expense_threshold = 500, recurring_transactions = []\<rparr>"

subsection \<open>\<^verbatim>\<open>add_transaction\<close>\<close>

text \<open>
  Lines 30 to 43, which the income and the expense branch share: the transaction is
  appended with the type as it was passed, the success message is shown, and the
  low-balance check reads the updated balance. \<open>tr\<close> is what the branch has emitted
  before.
\<close>

definition append_and_check ::
  "tracker \<Rightarrow> event list \<Rightarrow> real \<Rightarrow> string \<Rightarrow> string \<Rightarrow> tracker \<times> event list" where
  "append_and_check s tr amt cat ty =
     (let t = \<lparr>amount = amt, category = cat, type = ty\<rparr>;
          s' = s\<lparr>transactions := transactions s @ [t]\<rparr>;
          tr' = tr @ [Append t, StSuccess (success_message amt cat ty)]
      in if balance s' < balance_threshold s'
         then (s', tr' @ notify_user low_balance_title
                            (low_balance_message (balance_threshold s') (balance s')))
         else (s', tr'))"

text \<open>
  The three branches on \<^verbatim>\<open>transaction_type.lower()\<close>; the last one shows the error and
  returns at once.
\<close>

definition add_transaction ::
  "tracker \<Rightarrow> real \<Rightarrow> string \<Rightarrow> string \<Rightarrow> tracker \<times> event list" where
  "add_transaction s amt cat ty =
     (if lower ty = ''income'' then
        append_and_check (s\<lparr>balance := balance s + amt\<rparr>) [] amt cat ty
      else if lower ty = ''expense'' then
        (let s1 = s\<lparr>balance := balance s - amt\<rparr>;
             tr = (if amt > large_expense_threshold s1
                   then notify_user large_expense_title (large_expense_message amt cat)
                   else [])
         in append_and_check s1 tr amt cat ty)
      else (s, [StError invalid_type_message]))"

text \<open>A sequence of calls, each given as (amount, category, transaction type).\<close>

fun add_transactions :: "tracker \<Rightarrow> (real \<times> string \<times> string) list \<Rightarrow> tracker" where
  "add_transactions s [] = s"
| "add_transactions s ((amt, cat, ty) # calls) =
     add_transactions (fst (add_transaction s amt cat ty)) calls"

subsection \<open>Recurring transactions\<close>

definition recurring_message :: "real \<Rightarrow> string \<Rightarrow> string \<Rightarrow> string \<Rightarrow> string" where
  "recurring_message amt cat ty freq =
     ''Recurring transaction added: '' @ ty @ '' of $'' @ fmt2f amt @ '' in ''
     @ [CHR 0x27] @ cat @ [CHR 0x27] @ '' category, '' @ freq @ ''.''"

text \<open>\<^verbatim>\<open>add_recurring_transaction\<close>; \<open>now\<close> is the reading of the clock.\<close>

definition add_recurring_transaction ::
  "datetime \<Rightarrow> tracker \<Rightarrow> real \<Rightarrow> string \<Rightarrow> string \<Rightarrow> string \<Rightarrow> tracker \<times> event list" where
  "add_recurring_transaction now s amt cat ty freq =
     (let r = \<lparr>amount = amt, category = cat, type = ty,
               frequency = freq, last_added = now\<rparr>
      in (s\<lparr>recurring_transactions := recurring_transactions s @ [r]\<rparr>,
          [StSuccess (recurring_message amt cat ty freq)]))"

text \<open>
  The body of the three branches of the loop, the same in each: the delegated
  \<^verbatim>\<open>add_transaction\<close>, then the assignment to \<^verbatim>\<open>last_added\<close>.
\<close>

definition materialize ::
  "datetime \<Rightarrow> tracker \<Rightarrow> recurring \<Rightarrow> tracker \<times> recurring \<times> event list" where
  "materialize now s r =
     (let (s', tr) = add_transaction s (amount r) (category r) (type r)
      in (s', r\<lparr>last_added := now\<rparr>, tr))"

text \<open>One iteration of the loop of \<^verbatim>\<open>process_recurring_transactions\<close>.\<close>

definition process_rule ::
  "datetime \<Rightarrow> tracker \<Rightarrow> recurring \<Rightarrow> tracker \<times> recurring \<times> event list" where
  "process_rule now s r =
     (let last = last_added r
      in if frequency r = ''daily'' \<and> delta_days now last \<ge> 1 then materialize now s r
         else if frequency r = ''weekly'' \<and> delta_days now last \<ge> 7 then materialize now s r
         else if frequency r = ''monthly'' \<and> month now \<noteq> month last then materialize now s r
         else (s, r, []))"

text \<open>
  The loop over \<^verbatim>\<open>self.recurring_transactions\<close>. The clock is read once in every
  iteration: \<open>clock i\<close> is the reading in iteration \<open>i\<close>. The dictionaries are updated
  in place; as \<^verbatim>\<open>add_transaction\<close> neither reads nor writes the list, the updated
  dictionaries are collected and stored when the loop ends.
\<close>

fun process_rules ::
  "(nat \<Rightarrow> datetime) \<Rightarrow> nat \<Rightarrow> recurring list \<Rightarrow> tracker
   \<Rightarrow> tracker \<times> recurring list \<times> event list" where
  "process_rules clock i [] s = (s, [], [])"
| "process_rules clock i (r # rs) s =
     (let (s1, r1, tr1) = process_rule (clock i) s r;
          (s2, rs2, tr2) = process_rules clock (Suc i) rs s1
      in (s2, r1 # rs2, tr1 @ tr2))"

definition process_recurring_transactions ::
  "(nat \<Rightarrow> datetime) \<Rightarrow> tracker \<Rightarrow> tracker \<times> event list" where
  "process_recurring_transactions clock s =
     (let (s', rs', tr) = process_rules clock 0 (recurring_transactions s) s
      in (s'\<lparr>recurring_transactions := rs'\<rparr>, tr))"

subsection \<open>Reports\<close>

text \<open>\<^verbatim>\<open>view_balance\<close>\<close>

definition view_balance :: "tracker \<Rightarrow> string" where
  "view_balance s = ''Current Balance: $'' @ fmt2f (balance s)"

text \<open>\<^verbatim>\<open>sep.join(xs)\<close> and \<^verbatim>\<open>s.split(sep)\<close> for a separator of one character.\<close>

fun join :: "string \<Rightarrow> string list \<Rightarrow> string" where
  "join sep [] = []"
| "join sep [x] = x"
| "join sep (x # y # ys) = x @ sep @ join sep (y # ys)"

fun split_on :: "char \<Rightarrow> string \<Rightarrow> string list" where
  "split_on sep [] = [[]]"
| "split_on sep (c # cs) =
     (if c = sep then [] # split_on sep cs
      else (case split_on sep cs of [] \<Rightarrow> [[c]] | l # ls \<Rightarrow> (c # l) # ls))"

definition newline :: char where
  "newline = CHR 0x0A"

text \<open>The line of transaction number \<open>idx\<close> in \<^verbatim>\<open>view_transactions\<close>.\<close>

definition transaction_line :: "nat \<Rightarrow> transaction \<Rightarrow> string" where
  "transaction_line idx t =
     str_nat idx @ ''. '' @ capitalize (type t) @ '': $'' @ fmt2f (amount t)
     @ '' ('' @ category t @ '')''"

text \<open>\<^verbatim>\<open>enumerate(xs, 1)\<close> is \<open>zip [1..<Suc (length xs)] xs\<close>.\<close>

definition view_transactions :: "tracker \<Rightarrow> string" where
  "view_transactions s =
     (if transactions s = [] then ''No transactions recorded.''
      else join [newline]
             (map (\<lambda>(idx, t). transaction_line idx t)
                (zip [1..<Suc (length (transactions s))] (transactions s))))"

text \<open>
  The signed view of \<^verbatim>\<open>visualize_data\<close> (line 95) and its running total (line 107).
  The comparison with \<^verbatim>\<open>'expense'\<close> is the one of the source: on the type as stored.
\<close>

definition visualized_amount :: "transaction \<Rightarrow> real" where
  "visualized_amount t = (if type t = ''expense'' then - amount t else amount t)"

fun cumsum :: "real \<Rightarrow> real list \<Rightarrow> real list" where
  "cumsum acc [] = []"
| "cumsum acc (x # xs) = (acc + x) # cumsum (acc + x) xs"

definition cumulative_balance :: "tracker \<Rightarrow> real list" where
  "cumulative_balance s = cumsum 0 (map visualized_amount (transactions s))"

subsection \<open>Notions used by the properties\<close>

text \<open>
  The balance recomputed from the history, as the specification words it: the sum of the
  signed amounts, an income counted positive and an expense negative. A stored
  transaction is an expense when \<^verbatim>\<open>add_transaction\<close> took it for one, that is when its
  type in lower case is \<^verbatim>\<open>expense\<close>.
\<close>

definition signed_amount :: "transaction \<Rightarrow> real" where
  "signed_amount t = (if lower (type t) = ''expense'' then - amount t else amount t)"

definition history_total :: "tracker \<Rightarrow> real" where
  "history_total s = sum_list (map signed_amount (transactions s))"

text \<open>
  The guard of the loop body taken as a whole: the interval of the rule's frequency has
  elapsed at the reading \<open>now\<close>.
\<close>

definition interval_elapsed :: "datetime \<Rightarrow> recurring \<Rightarrow> bool" where
  "interval_elapsed now r =
     (frequency r = ''daily'' \<and> delta_days now (last_added r) \<ge> 1
      \<or> frequency r = ''weekly'' \<and> delta_days now (last_added r) \<ge> 7
      \<or> frequency r = ''monthly'' \<and> month now \<noteq> month (last_added r))"

text \<open>The number of transactions a trace has appended to the history.\<close>

definition materialized :: "event list \<Rightarrow> nat" where
  "materialized tr = length (filter is_append tr)"

text \<open>\<^verbatim>\<open>datetime(y, m, d, h)\<close>, and a clock that shows the same reading in every iteration.\<close>

definition mk_datetime :: "int \<Rightarrow> int \<Rightarrow> int \<Rightarrow> int \<Rightarrow> datetime" where
  "mk_datetime y m d h =
     \<lparr>year = y, month = m, day = d, hour = h, minute = 0, second = 0, microsecond = 0\<rparr>"

definition fixed_clock :: "datetime \<Rightarrow> nat \<Rightarrow> datetime" where
  "fixed_clock d i = d"

definition microseconds_per_hour :: int where
  "microseconds_per_hour = 3600 * 1000000"

section \<open>Properties\<close>

subsection \<open>Auxiliary facts about strings and \<^verbatim>\<open>add_transaction\<close>\<close>

lemmas lower_defs = lower_def lower_char_def upper_letters_def lower_letters_def

lemmas fmt_defs = fmt2f_def round_half_even_def str_nat.simps digit_char_def

lemma lower_income: "lower ''income'' = ''income''"
  by (simp add: lower_def lower_char_def upper_letters_def lower_letters_def)

lemma lower_expense: "lower ''expense'' = ''expense''"
  by (simp add: lower_def lower_char_def upper_letters_def lower_letters_def)

lemma transfer_invalid:
  "lower ''transfer'' \<noteq> ''income''" "lower ''transfer'' \<noteq> ''expense''"
  by (simp_all add: lower_defs)

lemma titles_distinct: "large_expense_title \<noteq> low_balance_title"
  by (simp add: large_expense_title_def low_balance_title_def)

text \<open>The three outcomes of \<^verbatim>\<open>add_transaction\<close>, and the two halves of its common tail.\<close>

lemma add_transaction_income:
  "lower ty = ''income'' \<Longrightarrow>
   add_transaction s amt cat ty =
     append_and_check (s\<lparr>balance := balance s + amt\<rparr>) [] amt cat ty"
  by (simp add: add_transaction_def)

lemma add_transaction_expense:
  "lower ty = ''expense'' \<Longrightarrow>
   add_transaction s amt cat ty =
     append_and_check (s\<lparr>balance := balance s - amt\<rparr>)
       (if amt > large_expense_threshold s
        then [Notify large_expense_title (large_expense_message amt cat)] else [])
       amt cat ty"
  by (simp add: add_transaction_def notify_user_def Let_def)

lemma add_transaction_invalid:
  "lower ty \<noteq> ''income'' \<Longrightarrow> lower ty \<noteq> ''expense'' \<Longrightarrow>
   add_transaction s amt cat ty = (s, [StError invalid_type_message])"
  by (simp add: add_transaction_def)

lemma fst_append_and_check:
  "fst (append_and_check s tr amt cat ty) =
     s\<lparr>transactions := transactions s @ [\<lparr>amount = amt, category = cat, type = ty\<rparr>]\<rparr>"
  by (simp add: append_and_check_def notify_user_def Let_def)

lemma snd_append_and_check:
  "snd (append_and_check s tr amt cat ty) =
     tr @ [Append \<lparr>amount = amt, category = cat, type = ty\<rparr>,
           StSuccess (success_message amt cat ty)]
     @ (if balance s < balance_threshold s
        then [Notify low_balance_title
                (low_balance_message (balance_threshold s) (balance s))]
        else [])"
  by (simp add: append_and_check_def notify_user_def Let_def)

subsection \<open>The balance and the history\<close>

lemma signed_amount_income:
  "lower ty = ''income'' \<Longrightarrow> signed_amount \<lparr>amount = amt, category = cat, type = ty\<rparr> = amt"
  by (simp add: signed_amount_def)

lemma signed_amount_expense:
  "lower ty = ''expense'' \<Longrightarrow> signed_amount \<lparr>amount = amt, category = cat, type = ty\<rparr> = - amt"
  by (simp add: signed_amount_def)

lemma add_transaction_keeps_total:
  assumes "balance s = history_total s"
  shows "balance (fst (add_transaction s amt cat ty))
         = history_total (fst (add_transaction s amt cat ty))"
proof -
  consider (inc) "lower ty = ''income''" | (exp) "lower ty = ''expense''"
    | (bad) "lower ty \<noteq> ''income''" "lower ty \<noteq> ''expense''"
    by blast
  then show ?thesis
  proof cases
    case inc
    with assms show ?thesis
      by (simp add: add_transaction_income fst_append_and_check history_total_def
          signed_amount_income)
  next
    case exp
    with assms show ?thesis
      by (simp add: add_transaction_expense fst_append_and_check history_total_def
          signed_amount_expense)
  next
    case bad
    with assms show ?thesis
      by (simp add: add_transaction_invalid)
  qed
qed

text \<open>
  Claim C1. After any sequence of \<^verbatim>\<open>add_transaction\<close> calls on a new tracker, with
  valid and invalid types and any amounts, the balance that was maintained step by step
  equals the sum of the signed amounts of the history (an income positive, an expense
  negative): the balance can be recomputed from the history.
\<close>

theorem balance_is_history_total:
  "balance (add_transactions new_tracker calls)
   = history_total (add_transactions new_tracker calls)"
proof -
  have start: "balance new_tracker = history_total new_tracker"
    by (simp add: new_tracker_def history_total_def)
  have step: "balance (add_transactions s calls) = history_total (add_transactions s calls)"
    if "balance s = history_total s" for s
    using that
  proof (induction calls arbitrary: s)
    case Nil
    then show ?case by simp
  next
    case (Cons c calls)
    obtain amt cat ty where c: "c = (amt, cat, ty)"
      by (cases c) auto
    from Cons.prems have "balance (fst (add_transaction s amt cat ty))
        = history_total (fst (add_transaction s amt cat ty))"
      by (rule add_transaction_keeps_total)
    then show ?case
      unfolding c by (simp add: Cons.IH)
  qed
  from step [OF start] show ?thesis .
qed

text \<open>
  The signed view that \<^verbatim>\<open>visualize_data\<close> computes compares the stored type with
  \<^verbatim>\<open>'expense'\<close> as it is. It agrees with the signed amount above on the types stored
  in lower case, and its running total then ends in the balance; a type stored as
  \<^verbatim>\<open>Expense\<close> is shown with a positive amount.
\<close>

lemma visualized_amount_lower_case:
  "type t = lower (type t) \<Longrightarrow> visualized_amount t = signed_amount t"
  by (simp add: visualized_amount_def signed_amount_def)

lemma visualized_amount_capitalized:
  "visualized_amount \<lparr>amount = 600, category = ''Rent'', type = ''Expense''\<rparr> = 600
   \<and> signed_amount \<lparr>amount = 600, category = ''Rent'', type = ''Expense''\<rparr> = - 600"
  by (simp add: visualized_amount_def signed_amount_def lower_defs)

lemma last_cumsum: "xs \<noteq> [] \<Longrightarrow> last (cumsum acc xs) = acc + sum_list xs"
proof (induction xs arbitrary: acc)
  case Nil
  then show ?case by simp
next
  case (Cons x xs)
  show ?case
  proof (cases xs)
    case Nil
    then show ?thesis by simp
  next
    case (Cons y ys)
    then have "last (cumsum (acc + x) xs) = acc + x + sum_list xs"
      using Cons.IH [of "acc + x"] by simp
    then show ?thesis
      using Cons by simp
  qed
qed

lemma last_cumulative_balance:
  assumes "transactions s \<noteq> []"
    and "\<forall>t \<in> set (transactions s). type t = lower (type t)"
  shows "last (cumulative_balance s) = history_total s"
proof -
  have same: "map visualized_amount (transactions s) = map signed_amount (transactions s)"
    using assms(2) by (simp add: visualized_amount_lower_case)
  have "last (cumulative_balance s) = 0 + sum_list (map visualized_amount (transactions s))"
    unfolding cumulative_balance_def using assms(1) by (intro last_cumsum) simp
  then show ?thesis
    by (simp only: same history_total_def add_0)
qed

subsection \<open>The scenario of a salary and a rent\<close>

text \<open>
  The first call of the scenario does emit a notification: the balance 50 is below the
  low-balance threshold 100.
\<close>

theorem first_income_alerts_counterexample:
  "notifications (snd (add_transaction new_tracker 50 ''Salary'' ''income'')) \<noteq> []"
  by (simp add: add_transaction_income lower_income snd_append_and_check notifications_def
      new_tracker_def)

text \<open>
  Claim C2, as the code has it. On a new tracker, \<^verbatim>\<open>add_transaction(50, "Salary",
  "income")\<close> gives the balance 50 and emits exactly one notification, the low-balance
  alert; then \<^verbatim>\<open>add_transaction(600, "Rent", "expense")\<close> gives the balance -550 and
  emits exactly the large-expense alert followed by the low-balance alert.
\<close>

theorem salary_then_rent:
  "balance (fst (add_transaction new_tracker 50 ''Salary'' ''income'')) = 50
   \<and> notifications (snd (add_transaction new_tracker 50 ''Salary'' ''income''))
     = [Notify ''Low Balance Alert''
          ''Your balance is below the threshold ($100.00). Current balance: $50.00.'']
   \<and> balance (fst (add_transaction
                    (fst (add_transaction new_tracker 50 ''Salary'' ''income''))
                    600 ''Rent'' ''expense'')) = - 550
   \<and> notifications (snd (add_transaction
                    (fst (add_transaction new_tracker 50 ''Salary'' ''income''))
                    600 ''Rent'' ''expense''))
     = [Notify ''Large Expense Alert''
          (''A large expense of $600.00 was recorded in the '' @ [CHR 0x27] @ ''Rent''
           @ [CHR 0x27] @ '' category.''),
        Notify ''Low Balance Alert''
          ''Your balance is below the threshold ($100.00). Current balance: $-550.00.'']"
  by (simp add: add_transaction_income add_transaction_expense lower_income lower_expense
      fst_append_and_check snd_append_and_check notifications_def new_tracker_def
      large_expense_title_def low_balance_title_def large_expense_message_def
      low_balance_message_def fmt_defs)

subsection \<open>Rejected transaction types\<close>

text \<open>
  Claim C3. For every tracker and every transaction type that in lower case is neither
  \<^verbatim>\<open>income\<close> nor \<^verbatim>\<open>expense\<close>, \<^verbatim>\<open>add_transaction\<close> returns the tracker as it was
  (balance, history and recurring transactions included), calls \<^verbatim>\<open>notify_user\<close> not
  at all, and does nothing but show the error message: it returns instead of raising,
  before any other effect.
\<close>

theorem invalid_type_rejected:
  assumes "lower ty \<noteq> ''income''" and "lower ty \<noteq> ''expense''"
  shows "fst (add_transaction s amt cat ty) = s
       \<and> balance (fst (add_transaction s amt cat ty)) = balance s
       \<and> transactions (fst (add_transaction s amt cat ty)) = transactions s
       \<and> recurring_transactions (fst (add_transaction s amt cat ty)) = recurring_transactions s
       \<and> snd (add_transaction s amt cat ty) = [StError invalid_type_message]
       \<and> notifications (snd (add_transaction s amt cat ty)) = []"
  using assms by (simp add: add_transaction_invalid notifications_def)

theorem invalid_type_rejected_witness:
  "lower ''transfer'' \<noteq> ''income'' \<and> lower ''transfer'' \<noteq> ''expense''
   \<and> add_transaction new_tracker 20 ''Gift'' ''transfer''
       = (new_tracker, [StError invalid_type_message])"
  using invalid_type_rejected [of "''transfer''" new_tracker 20 "''Gift''"]
  by (simp add: lower_def lower_char_def upper_letters_def lower_letters_def prod_eq_iff)

subsection \<open>The large-expense alert\<close>

text \<open>
  Claim C4. An expense whose amount is strictly above \<^verbatim>\<open>large_expense_threshold\<close>
  emits exactly one large-expense alert, as the first event of the call and so before
  the append to the history, which is the next event; nothing after it is a second alert
  or a second append. An expense equal to the threshold emits no large-expense alert,
  and an income emits none whatever its amount.
\<close>

theorem large_expense_alert:
  "(lower ty = ''expense'' \<and> large_expense_threshold s < amt \<longrightarrow>
      (\<exists>rest. snd (add_transaction s amt cat ty)
                = Notify large_expense_title (large_expense_message amt cat)
                  # Append \<lparr>amount = amt, category = cat, type = ty\<rparr> # rest
              \<and> alerts large_expense_title rest = [] \<and> filter is_append rest = [])
      \<and> length (alerts large_expense_title (snd (add_transaction s amt cat ty))) = 1)
   \<and> (lower ty = ''expense'' \<and> amt = large_expense_threshold s \<longrightarrow>
        alerts large_expense_title (snd (add_transaction s amt cat ty)) = [])
   \<and> (lower ty = ''income'' \<longrightarrow>
        alerts large_expense_title (snd (add_transaction s amt cat ty)) = [])"
  using titles_distinct
  by (auto simp add: add_transaction_income add_transaction_expense snd_append_and_check alerts_def)

theorem large_expense_alert_witness:
  "lower ''expense'' = ''expense'' \<and> large_expense_threshold new_tracker < 600
   \<and> length (alerts large_expense_title
        (snd (add_transaction new_tracker 600 ''Rent'' ''expense''))) = 1
   \<and> hd (snd (add_transaction new_tracker 600 ''Rent'' ''expense''))
       = Notify large_expense_title (large_expense_message 600 ''Rent'')
   \<and> 500 = large_expense_threshold new_tracker
   \<and> alerts large_expense_title (snd (add_transaction new_tracker 500 ''Rent'' ''expense'')) = []
   \<and> lower ''Income'' = ''income''
   \<and> alerts large_expense_title (snd (add_transaction new_tracker 9000 ''Bonus'' ''Income'')) = []"
  using large_expense_alert [of "''expense''" new_tracker 600 "''Rent''"]
        large_expense_alert [of "''expense''" new_tracker 500 "''Rent''"]
        large_expense_alert [of "''Income''" new_tracker 9000 "''Bonus''"]
  by (auto simp add: lower_def lower_char_def upper_letters_def lower_letters_def new_tracker_def)

subsection \<open>The low-balance alert\<close>

text \<open>
  A call with an unknown type returns before the low-balance check: on a new tracker the
  balance 0 stays below the threshold 100 and no alert is emitted.
\<close>

theorem low_balance_invalid_type_counterexample:
  "\<not> (balance (fst (add_transaction new_tracker 5 ''Misc'' ''transfer''))
        < balance_threshold (fst (add_transaction new_tracker 5 ''Misc'' ''transfer''))
      \<longrightarrow> length (alerts low_balance_title
                    (snd (add_transaction new_tracker 5 ''Misc'' ''transfer''))) = 1)"
  by (simp add: add_transaction_def notify_user_def lower_def lower_char_def upper_letters_def
      lower_letters_def new_tracker_def alerts_def)

text \<open>
  Claim C5, as the code has it. After a call of \<^verbatim>\<open>add_transaction\<close> whose type is
  income or expense, exactly one low-balance alert is emitted when the resulting balance
  is strictly below \<^verbatim>\<open>balance_threshold\<close>, whichever of the two the type is, and none
  when the balance equals the threshold. A call with any other type emits no low-balance
  alert.
\<close>

theorem low_balance_alert:
  "(lower ty = ''income'' \<or> lower ty = ''expense'' \<longrightarrow>
      (balance (fst (add_transaction s amt cat ty))
         < balance_threshold (fst (add_transaction s amt cat ty)) \<longrightarrow>
       length (alerts low_balance_title (snd (add_transaction s amt cat ty))) = 1)
    \<and> (balance (fst (add_transaction s amt cat ty))
         = balance_threshold (fst (add_transaction s amt cat ty)) \<longrightarrow>
       alerts low_balance_title (snd (add_transaction s amt cat ty)) = []))
   \<and> (lower ty \<noteq> ''income'' \<and> lower ty \<noteq> ''expense'' \<longrightarrow>
       alerts low_balance_title (snd (add_transaction s amt cat ty)) = [])"
  using titles_distinct
  by (auto simp add: add_transaction_income add_transaction_expense add_transaction_invalid
      fst_append_and_check snd_append_and_check alerts_def)

theorem low_balance_alert_witness:
  "(lower ''income'' = ''income'' \<or> lower ''income'' = ''expense'')
   \<and> balance (fst (add_transaction new_tracker 50 ''Salary'' ''income''))
       < balance_threshold (fst (add_transaction new_tracker 50 ''Salary'' ''income''))
   \<and> length (alerts low_balance_title
               (snd (add_transaction new_tracker 50 ''Salary'' ''income''))) = 1
   \<and> balance (fst (add_transaction new_tracker 100 ''Salary'' ''income''))
       = balance_threshold (fst (add_transaction new_tracker 100 ''Salary'' ''income''))
   \<and> alerts low_balance_title
       (snd (add_transaction new_tracker 100 ''Salary'' ''income'')) = []
   \<and> lower ''transfer'' \<noteq> ''income'' \<and> lower ''transfer'' \<noteq> ''expense''
   \<and> alerts low_balance_title
       (snd (add_transaction new_tracker 5 ''Misc'' ''transfer'')) = []"
  using low_balance_alert [of "''income''" new_tracker 50 "''Salary''"]
        low_balance_alert [of "''income''" new_tracker 100 "''Salary''"]
        low_balance_alert [of "''transfer''" new_tracker 5 "''Misc''"]
  by (simp add: lower_def lower_char_def upper_letters_def lower_letters_def
      add_transaction_def append_and_check_def notify_user_def Let_def new_tracker_def)

subsection \<open>Upper and lower case in the transaction type\<close>

text \<open>
  Claim C10. For a type whose lower case is \<^verbatim>\<open>income\<close> (or \<^verbatim>\<open>expense\<close>), the resulting
  balance and the notifications are those of the call with the lower-case type, and the
  history gains one entry that stores the type exactly as it was passed.
\<close>

theorem type_case_insensitive:
  "(lower ty = ''income'' \<longrightarrow>
      balance (fst (add_transaction s amt cat ty))
        = balance (fst (add_transaction s amt cat ''income''))
    \<and> notifications (snd (add_transaction s amt cat ty))
        = notifications (snd (add_transaction s amt cat ''income''))
    \<and> transactions (fst (add_transaction s amt cat ty))
        = transactions s @ [\<lparr>amount = amt, category = cat, type = ty\<rparr>])
   \<and> (lower ty = ''expense'' \<longrightarrow>
      balance (fst (add_transaction s amt cat ty))
        = balance (fst (add_transaction s amt cat ''expense''))
    \<and> notifications (snd (add_transaction s amt cat ty))
        = notifications (snd (add_transaction s amt cat ''expense''))
    \<and> transactions (fst (add_transaction s amt cat ty))
        = transactions s @ [\<lparr>amount = amt, category = cat, type = ty\<rparr>])"
  by (simp add: add_transaction_income add_transaction_expense lower_income lower_expense
      fst_append_and_check snd_append_and_check notifications_def)

theorem type_case_insensitive_witness:
  "lower ''InCome'' = ''income''
   \<and> balance (fst (add_transaction new_tracker 50 ''Salary'' ''InCome''))
       = balance (fst (add_transaction new_tracker 50 ''Salary'' ''income''))
   \<and> transactions (fst (add_transaction new_tracker 50 ''Salary'' ''InCome''))
       = [\<lparr>amount = 50, category = ''Salary'', type = ''InCome''\<rparr>]
   \<and> lower ''EXPENSE'' = ''expense''
   \<and> notifications (snd (add_transaction new_tracker 600 ''Rent'' ''EXPENSE''))
       = notifications (snd (add_transaction new_tracker 600 ''Rent'' ''expense''))
   \<and> transactions (fst (add_transaction new_tracker 600 ''Rent'' ''EXPENSE''))
       = [\<lparr>amount = 600, category = ''Rent'', type = ''EXPENSE''\<rparr>]"
  using type_case_insensitive [of "''InCome''" new_tracker 50 "''Salary''"]
        type_case_insensitive [of "''EXPENSE''" new_tracker 600 "''Rent''"]
  by (simp add: lower_def lower_char_def upper_letters_def lower_letters_def new_tracker_def)

subsection \<open>Auxiliary facts about time and the recurring transactions\<close>

lemmas calendar_defs = delta_days_def delta_microseconds_def toordinal_def
  days_before_year_def days_before_month_def days_in_month_def is_leap_def time_of_day_def
  microseconds_per_day_def microseconds_per_hour_def mk_datetime_def

lemma delta_days_self: "delta_days d d = 0"
  by (simp add: delta_days_def delta_microseconds_def)

lemma delta_microseconds_via:
  "delta_microseconds a b = delta_microseconds a c - delta_microseconds b c"
  by (simp add: delta_microseconds_def algebra_simps)

lemma delta_days_25h:
  "delta_microseconds a b = 25 * microseconds_per_hour \<Longrightarrow> delta_days a b = 1"
  by (simp add: delta_days_def microseconds_per_hour_def microseconds_per_day_def)

lemma delta_days_1h:
  "delta_microseconds a b = microseconds_per_hour \<Longrightarrow> delta_days a b = 0"
  by (simp add: delta_days_def microseconds_per_hour_def microseconds_per_day_def)

lemma jan_25h:
  "delta_microseconds (mk_datetime 2024 1 2 1) (mk_datetime 2024 1 1 0)
   = 25 * microseconds_per_hour"
  by (simp add: calendar_defs)

lemma jan_26h:
  "delta_microseconds (mk_datetime 2024 1 2 2) (mk_datetime 2024 1 1 0)
   = 26 * microseconds_per_hour"
  by (simp add: calendar_defs)

lemma march_year: "delta_days (mk_datetime 2025 3 15 9) (mk_datetime 2024 3 15 9) = 365"
  by (simp add: calendar_defs)

lemma month_mk_datetime: "month (mk_datetime y m d h) = m"
  by (simp add: mk_datetime_def)

text \<open>One iteration: the guard, and what becomes of the rule and of the history.\<close>

lemma process_rule_eq:
  "process_rule now s r =
     (if interval_elapsed now r then materialize now s r else (s, r, []))"
  by (auto simp add: process_rule_def interval_elapsed_def Let_def)

lemma materialize_invalid:
  "lower (type r) \<noteq> ''income'' \<Longrightarrow> lower (type r) \<noteq> ''expense'' \<Longrightarrow>
   materialize now s r = (s, r\<lparr>last_added := now\<rparr>, [StError invalid_type_message])"
  by (simp add: materialize_def add_transaction_invalid)

lemma materialize_rule: "fst (snd (materialize now s r)) = r\<lparr>last_added := now\<rparr>"
  by (simp add: materialize_def split: prod.splits)

lemma materialize_valid_state:
  "lower (type r) = ''income'' \<or> lower (type r) = ''expense'' \<Longrightarrow>
   transactions (fst (materialize now s r))
   = transactions s @ [\<lparr>amount = amount r, category = category r, type = type r\<rparr>]"
  by (auto simp add: materialize_def case_prod_beta add_transaction_income
      add_transaction_expense fst_append_and_check)

lemma process_rule_rule:
  "fst (snd (process_rule now s r))
   = (if interval_elapsed now r then r\<lparr>last_added := now\<rparr> else r)"
  by (simp add: process_rule_eq materialize_rule)

lemma not_elapsed_at_once: "\<not> interval_elapsed now (r\<lparr>last_added := now\<rparr>)"
  by (simp add: interval_elapsed_def delta_days_self)

lemma monthly_same_month:
  "frequency r = ''monthly'' \<Longrightarrow> month now = month (last_added r) \<Longrightarrow>
   process_rule now s r = (s, r, [])"
  by (simp add: process_rule_def)

lemma materialized_append: "materialized (xs @ ys) = materialized xs + materialized ys"
  by (simp add: materialized_def)

lemma materialized_add_transaction:
  "materialized (snd (add_transaction s amt cat ty))
   = (if lower ty = ''income'' \<or> lower ty = ''expense'' then 1 else 0)"
  by (auto simp add: materialized_def add_transaction_income add_transaction_expense
      add_transaction_invalid snd_append_and_check)

lemma materialized_process_rule:
  "materialized (snd (snd (process_rule now s r)))
   = (if interval_elapsed now r \<and> (lower (type r) = ''income'' \<or> lower (type r) = ''expense'')
      then 1 else 0)"
  using materialized_add_transaction [of s "amount r" "category r" "type r"]
  by (auto simp add: process_rule_eq materialize_def materialized_def split: prod.splits)

text \<open>The loop: the rules and the trace of a pass, iteration by iteration.\<close>

lemma process_rules_Cons_rules:
  "fst (snd (process_rules clock i (r # rs) s))
   = fst (snd (process_rule (clock i) s r))
     # fst (snd (process_rules clock (Suc i) rs (fst (process_rule (clock i) s r))))"
  by (simp add: case_prod_beta)

lemma process_rules_Cons_trace:
  "snd (snd (process_rules clock i (r # rs) s))
   = snd (snd (process_rule (clock i) s r))
     @ snd (snd (process_rules clock (Suc i) rs (fst (process_rule (clock i) s r))))"
  by (simp add: case_prod_beta)

lemma process_rules_nth:
  "k < length rs \<Longrightarrow>
   fst (snd (process_rules clock i rs s)) ! k
   = (if interval_elapsed (clock (i + k)) (rs ! k)
      then (rs ! k)\<lparr>last_added := clock (i + k)\<rparr> else rs ! k)"
proof (induction rs arbitrary: i s k)
  case Nil
  then show ?case by simp
next
  case (Cons r rs)
  show ?case
  proof (cases k)
    case 0
    then show ?thesis
      by (simp only: process_rules_Cons_rules process_rule_rule nth_Cons_0 add_0_right)
  next
    case (Suc j)
    with Cons.prems have "j < length rs" by simp
    from Cons.IH [OF this, of "Suc i" "fst (process_rule (clock i) s r)"] show ?thesis
      unfolding Suc by (simp only: process_rules_Cons_rules nth_Cons_Suc add_Suc_right add_Suc)
  qed
qed

lemma materialized_process_rules:
  "materialized (snd (snd (process_rules clock i rs s))) \<le> length rs"
proof (induction rs arbitrary: i s)
  case Nil
  then show ?case by (simp add: materialized_def)
next
  case (Cons r rs)
  have "materialized (snd (snd (process_rule (clock i) s r))) \<le> 1"
    by (simp add: materialized_process_rule)
  moreover have "materialized (snd (snd (process_rules clock (Suc i) rs
                   (fst (process_rule (clock i) s r))))) \<le> length rs"
    by (rule Cons.IH)
  ultimately show ?case
    by (simp only: process_rules_Cons_trace materialized_append list.size)
qed

lemma process_recurring_single:
  "recurring_transactions s = [r] \<Longrightarrow>
   process_recurring_transactions clock s
   = (case process_rule (clock 0) s r of
        (s', r', tr) \<Rightarrow> (s'\<lparr>recurring_transactions := [r']\<rparr>, tr))"
  by (simp add: process_recurring_transactions_def split: prod.splits)

subsection \<open>A monthly rule after twelve months\<close>

text \<open>
  Claim C6 does not hold of the code. A monthly rule created on 15 March 2024 at 9:00 and
  evaluated on 15 March 2025 at 9:00, 365 days later, is not materialised: the two
  months are equal, so the pass appends nothing and leaves \<^verbatim>\<open>last_added\<close> as it was.
\<close>

theorem monthly_rule_after_twelve_months:
  "delta_days (mk_datetime 2025 3 15 9) (mk_datetime 2024 3 15 9) = 365
   \<and> process_recurring_transactions (fixed_clock (mk_datetime 2025 3 15 9))
       (fst (add_recurring_transaction (mk_datetime 2024 3 15 9) new_tracker
               1200 ''Rent'' ''expense'' ''monthly''))
     = (fst (add_recurring_transaction (mk_datetime 2024 3 15 9) new_tracker
               1200 ''Rent'' ''expense'' ''monthly''), [])"
  by (simp add: march_year process_recurring_transactions_def add_recurring_transaction_def
      new_tracker_def fixed_clock_def monthly_same_month month_mk_datetime)

subsection \<open>A daily rule is not back-filled\<close>

text \<open>
  A daily rule of an unknown type, created on 1 January 2024 at 0:00 and evaluated 25 and
  26 hours later: the two passes append no transaction.
\<close>

theorem daily_rule_invalid_type_counterexample:
  "delta_microseconds (mk_datetime 2024 1 2 1) (mk_datetime 2024 1 1 0)
     = 25 * microseconds_per_hour
   \<and> delta_microseconds (mk_datetime 2024 1 2 2) (mk_datetime 2024 1 1 0)
     = 26 * microseconds_per_hour
   \<and> materialized
       (snd (process_recurring_transactions (fixed_clock (mk_datetime 2024 1 2 1))
          (fst (add_recurring_transaction (mk_datetime 2024 1 1 0) new_tracker
                  10 ''Gym'' ''transfer'' ''daily''))))
     + materialized
       (snd (process_recurring_transactions (fixed_clock (mk_datetime 2024 1 2 2))
          (fst (process_recurring_transactions (fixed_clock (mk_datetime 2024 1 2 1))
             (fst (add_recurring_transaction (mk_datetime 2024 1 1 0) new_tracker
                     10 ''Gym'' ''transfer'' ''daily''))))))
     \<noteq> 1"
proof -
  let ?r0 = "\<lparr>amount = 10, category = ''Gym'', type = ''transfer'', frequency = ''daily'',
              last_added = mk_datetime 2024 1 1 0\<rparr>"
  let ?s1 = "fst (add_recurring_transaction (mk_datetime 2024 1 1 0) new_tracker
                  10 ''Gym'' ''transfer'' ''daily'')"
  have s1: "recurring_transactions ?s1 = [?r0]"
    by (simp add: add_recurring_transaction_def new_tracker_def)
  have e1: "interval_elapsed (mk_datetime 2024 1 2 1) ?r0"
    using delta_days_25h [OF jan_25h] by (simp add: interval_elapsed_def)
  have p1: "process_recurring_transactions (fixed_clock (mk_datetime 2024 1 2 1)) ?s1
            = (?s1\<lparr>recurring_transactions := [?r0\<lparr>last_added := mk_datetime 2024 1 2 1\<rparr>]\<rparr>,
               [StError invalid_type_message])"
    using e1
    by (simp add: process_recurring_single [OF s1] fixed_clock_def process_rule_eq
        materialize_invalid transfer_invalid)
  have "materialized (snd (process_recurring_transactions (fixed_clock (mk_datetime 2024 1 2 2))
          (?s1\<lparr>recurring_transactions := [?r0\<lparr>last_added := mk_datetime 2024 1 2 1\<rparr>]\<rparr>)))
        \<le> 1"
    using materialized_process_rules [of "fixed_clock (mk_datetime 2024 1 2 2)" 0
        "[?r0\<lparr>last_added := mk_datetime 2024 1 2 1\<rparr>]"]
    by (simp add: process_recurring_transactions_def case_prod_beta)
  have d: "delta_days (mk_datetime 2024 1 2 2) (mk_datetime 2024 1 2 1) = 0"
    by (simp add: calendar_defs)
  have p2: "materialized (snd (process_recurring_transactions (fixed_clock (mk_datetime 2024 1 2 2))
          (?s1\<lparr>recurring_transactions := [?r0\<lparr>last_added := mk_datetime 2024 1 2 1\<rparr>]\<rparr>)))
        = 0"
    using d
    by (simp add: process_recurring_transactions_def fixed_clock_def process_rule_eq
        interval_elapsed_def materialized_def)
  show ?thesis
    using p2 by (simp add: jan_25h jan_26h p1 materialized_def)
qed

text \<open>
  Claim C7, as the code has it. A daily rule whose type is income or expense, created at
  time \<open>T\<close>, appends exactly one transaction when it is evaluated at \<open>T\<close> + 25 hours and
  none when it is then evaluated at \<open>T\<close> + 26 hours, whatever the tracker is at either
  moment; on a tracker with no other rule the two passes append that one transaction in
  total. In general one iteration appends at most one transaction, and a pass at most as
  many as there are rules, however long ago \<^verbatim>\<open>last_added\<close> is.
\<close>

theorem daily_rule_fires_once:
  "((lower ty = ''income'' \<or> lower ty = ''expense'')
    \<and> delta_microseconds n1 T = 25 * microseconds_per_hour
    \<and> delta_microseconds n2 T = 26 * microseconds_per_hour
    \<longrightarrow>
      materialized (snd (snd (process_rule n1 sa
          \<lparr>amount = amt, category = cat, type = ty, frequency = ''daily'', last_added = T\<rparr>))) = 1
    \<and> fst (snd (process_rule n1 sa
          \<lparr>amount = amt, category = cat, type = ty, frequency = ''daily'', last_added = T\<rparr>))
        = \<lparr>amount = amt, category = cat, type = ty, frequency = ''daily'', last_added = n1\<rparr>
    \<and> process_rule n2 sb
          \<lparr>amount = amt, category = cat, type = ty, frequency = ''daily'', last_added = n1\<rparr>
        = (sb, \<lparr>amount = amt, category = cat, type = ty, frequency = ''daily'',
                last_added = n1\<rparr>, [])
    \<and> (recurring_transactions s = [] \<and> c1 0 = n1 \<and> c2 0 = n2 \<longrightarrow>
        materialized
          (snd (process_recurring_transactions c1
             (fst (add_recurring_transaction T s amt cat ty ''daily''))))
        + materialized
          (snd (process_recurring_transactions c2
             (fst (process_recurring_transactions c1
                (fst (add_recurring_transaction T s amt cat ty ''daily'')))))) = 1
        \<and> transactions
            (fst (process_recurring_transactions c2
               (fst (process_recurring_transactions c1
                  (fst (add_recurring_transaction T s amt cat ty ''daily''))))))
          = transactions s @ [\<lparr>amount = amt, category = cat, type = ty\<rparr>]))
   \<and> materialized (snd (snd (process_rule now s r))) \<le> 1
   \<and> materialized (snd (process_recurring_transactions clock s))
       \<le> length (recurring_transactions s)"
proof (intro conjI impI)
  show "materialized (snd (snd (process_rule now s r))) \<le> 1"
    by (simp add: materialized_process_rule)
  show "materialized (snd (process_recurring_transactions clock s))
       \<le> length (recurring_transactions s)"
    using materialized_process_rules [of clock 0 "recurring_transactions s" s]
    by (simp add: process_recurring_transactions_def case_prod_beta)
next
  let ?r0 = "\<lparr>amount = amt, category = cat, type = ty, frequency = ''daily'', last_added = T\<rparr>"
  let ?r1 = "\<lparr>amount = amt, category = cat, type = ty, frequency = ''daily'', last_added = n1\<rparr>"
  assume a: "(lower ty = ''income'' \<or> lower ty = ''expense'')
    \<and> delta_microseconds n1 T = 25 * microseconds_per_hour
    \<and> delta_microseconds n2 T = 26 * microseconds_per_hour"
  then have d1: "delta_days n1 T = 1"
    by (simp add: delta_days_25h)
  have "delta_microseconds n2 n1 = microseconds_per_hour"
    using a delta_microseconds_via [of n2 n1 T] by simp
  then have d2: "delta_days n2 n1 = 0"
    by (rule delta_days_1h)
  have e1: "interval_elapsed n1 ?r0"
    using d1 by (simp add: interval_elapsed_def)
  have e2: "\<not> interval_elapsed n2 ?r1"
    using d2 by (simp add: interval_elapsed_def)
  have ty: "lower (type ?r0) = ''income'' \<or> lower (type ?r0) = ''expense''"
    using a by simp
  show m1: "materialized (snd (snd (process_rule n1 sa ?r0))) = 1"
    using e1 ty by (simp only: materialized_process_rule) simp
  show u1: "fst (snd (process_rule n1 sa ?r0)) = ?r1"
    using e1 by (simp add: process_rule_rule)
  show p2: "process_rule n2 sb ?r1 = (sb, ?r1, [])"
    using e2 by (simp add: process_rule_eq)
  assume b: "recurring_transactions s = [] \<and> c1 0 = n1 \<and> c2 0 = n2"
  let ?s1 = "fst (add_recurring_transaction T s amt cat ty ''daily'')"
  have s1: "recurring_transactions ?s1 = [?r0]" "transactions ?s1 = transactions s"
    using b by (simp_all add: add_recurring_transaction_def)
  have pr1: "process_rule n1 ?s1 ?r0 = materialize n1 ?s1 ?r0"
    using e1 by (simp add: process_rule_eq)
  have q1: "process_recurring_transactions c1 ?s1
            = ((fst (materialize n1 ?s1 ?r0))\<lparr>recurring_transactions := [?r1]\<rparr>,
               snd (snd (materialize n1 ?s1 ?r0)))"
    using b pr1 materialize_rule [of n1 ?s1 ?r0]
    by (simp add: process_recurring_single [OF s1(1)] case_prod_beta)
  let ?s2 = "fst (process_recurring_transactions c1 ?s1)"
  have s2: "recurring_transactions ?s2 = [?r1]"
    "transactions ?s2 = transactions s @ [\<lparr>amount = amt, category = cat, type = ty\<rparr>]"
    using materialize_valid_state [OF ty, of n1 ?s1] s1 by (simp_all add: q1)
  have q2: "process_recurring_transactions c2 ?s2 = (?s2\<lparr>recurring_transactions := [?r1]\<rparr>, [])"
    using b e2 by (simp add: process_recurring_single [OF s2(1)] process_rule_eq)
  have "materialized (snd (snd (process_rule n1 ?s1 ?r0))) = 1"
    using e1 ty by (simp only: materialized_process_rule) simp
  then have "materialized (snd (process_recurring_transactions c1 ?s1)) = 1"
    by (simp add: q1 pr1)
  moreover have "materialized (snd (process_recurring_transactions c2 ?s2)) = 0"
    by (simp add: q2 materialized_def)
  ultimately show "materialized (snd (process_recurring_transactions c1 ?s1))
        + materialized (snd (process_recurring_transactions c2 ?s2)) = 1"
    by simp
  show "transactions (fst (process_recurring_transactions c2 ?s2))
        = transactions s @ [\<lparr>amount = amt, category = cat, type = ty\<rparr>]"
    using s2 by (simp add: q2)
qed

theorem daily_rule_fires_once_witness:
  "(lower ''expense'' = ''income'' \<or> lower ''expense'' = ''expense'')
   \<and> delta_microseconds (mk_datetime 2024 1 2 1) (mk_datetime 2024 1 1 0)
       = 25 * microseconds_per_hour
   \<and> delta_microseconds (mk_datetime 2024 1 2 2) (mk_datetime 2024 1 1 0)
       = 26 * microseconds_per_hour
   \<and> recurring_transactions new_tracker = []
   \<and> transactions
       (fst (process_recurring_transactions (fixed_clock (mk_datetime 2024 1 2 2))
          (fst (process_recurring_transactions (fixed_clock (mk_datetime 2024 1 2 1))
             (fst (add_recurring_transaction (mk_datetime 2024 1 1 0) new_tracker
                     10 ''Gym'' ''expense'' ''daily''))))))
     = [\<lparr>amount = 10, category = ''Gym'', type = ''expense''\<rparr>]
   \<and> materialized
       (snd (process_recurring_transactions (fixed_clock (mk_datetime 2024 1 2 1))
          (fst (add_recurring_transaction (mk_datetime 2024 1 1 0) new_tracker
                  10 ''Gym'' ''expense'' ''daily''))))
     + materialized
       (snd (process_recurring_transactions (fixed_clock (mk_datetime 2024 1 2 2))
          (fst (process_recurring_transactions (fixed_clock (mk_datetime 2024 1 2 1))
             (fst (add_recurring_transaction (mk_datetime 2024 1 1 0) new_tracker
                     10 ''Gym'' ''expense'' ''daily''))))))
     = 1"
  using daily_rule_fires_once
    [of "''expense''" "mk_datetime 2024 1 2 1" "mk_datetime 2024 1 1 0" "mk_datetime 2024 1 2 2"
        new_tracker 10 "''Gym''" new_tracker new_tracker
        "fixed_clock (mk_datetime 2024 1 2 1)" "fixed_clock (mk_datetime 2024 1 2 2)"]
  by (simp add: lower_expense jan_25h jan_26h fixed_clock_def new_tracker_def)

subsection \<open>A recurring transaction of an unknown type\<close>

text \<open>
  Claim C9. When the interval of a rule has elapsed and its type is neither income nor
  expense, the iteration leaves the tracker as it was (nothing appended, balance
  unchanged, only the error message shown) and still sets \<^verbatim>\<open>last_added\<close> to the
  reading of the clock; evaluated again at that reading the rule does nothing, so the
  firing is not made up for. After a whole pass the rule at that position of the list
  carries the new \<^verbatim>\<open>last_added\<close>.
\<close>

theorem invalid_rule_consumed:
  "interval_elapsed now r \<and> lower (type r) \<noteq> ''income'' \<and> lower (type r) \<noteq> ''expense''
   \<longrightarrow> process_rule now s r = (s, r\<lparr>last_added := now\<rparr>, [StError invalid_type_message])
     \<and> process_rule now s (r\<lparr>last_added := now\<rparr>) = (s, r\<lparr>last_added := now\<rparr>, [])
     \<and> (k < length (recurring_transactions t) \<and> recurring_transactions t ! k = r
          \<and> clock k = now
        \<longrightarrow> recurring_transactions (fst (process_recurring_transactions clock t)) ! k
            = r\<lparr>last_added := now\<rparr>)"
proof (intro impI conjI)
  assume a: "interval_elapsed now r \<and> lower (type r) \<noteq> ''income'' \<and> lower (type r) \<noteq> ''expense''"
  then show "process_rule now s r = (s, r\<lparr>last_added := now\<rparr>, [StError invalid_type_message])"
    by (simp add: process_rule_eq materialize_invalid)
  show "process_rule now s (r\<lparr>last_added := now\<rparr>) = (s, r\<lparr>last_added := now\<rparr>, [])"
    by (simp add: process_rule_eq not_elapsed_at_once)
  assume b: "k < length (recurring_transactions t) \<and> recurring_transactions t ! k = r
          \<and> clock k = now"
  have "recurring_transactions (fst (process_recurring_transactions clock t))
        = fst (snd (process_rules clock 0 (recurring_transactions t) t))"
    by (simp add: process_recurring_transactions_def split: prod.splits)
  then show "recurring_transactions (fst (process_recurring_transactions clock t)) ! k
            = r\<lparr>last_added := now\<rparr>"
    using a b process_rules_nth [of k "recurring_transactions t" clock 0 t] by simp
qed

theorem invalid_rule_consumed_witness:
  "interval_elapsed (mk_datetime 2024 1 2 1)
     \<lparr>amount = 10, category = ''Gym'', type = ''transfer'', frequency = ''daily'',
      last_added = mk_datetime 2024 1 1 0\<rparr>
   \<and> lower ''transfer'' \<noteq> ''income'' \<and> lower ''transfer'' \<noteq> ''expense''
   \<and> process_rule (mk_datetime 2024 1 2 1) new_tracker
       \<lparr>amount = 10, category = ''Gym'', type = ''transfer'', frequency = ''daily'',
        last_added = mk_datetime 2024 1 1 0\<rparr>
     = (new_tracker,
        \<lparr>amount = 10, category = ''Gym'', type = ''transfer'', frequency = ''daily'',
         last_added = mk_datetime 2024 1 2 1\<rparr>,
        [StError invalid_type_message])
   \<and> recurring_transactions
       (fst (process_recurring_transactions (fixed_clock (mk_datetime 2024 1 2 1))
          (fst (add_recurring_transaction (mk_datetime 2024 1 1 0) new_tracker
                  10 ''Gym'' ''transfer'' ''daily'')))) ! 0
     = \<lparr>amount = 10, category = ''Gym'', type = ''transfer'', frequency = ''daily'',
        last_added = mk_datetime 2024 1 2 1\<rparr>"
  using invalid_rule_consumed
    [of "mk_datetime 2024 1 2 1"
        "\<lparr>amount = 10, category = ''Gym'', type = ''transfer'', frequency = ''daily'',
          last_added = mk_datetime 2024 1 1 0\<rparr>"
        new_tracker 0
        "fst (add_recurring_transaction (mk_datetime 2024 1 1 0) new_tracker
                  10 ''Gym'' ''transfer'' ''daily'')"
        "fixed_clock (mk_datetime 2024 1 2 1)"]
    delta_days_25h [OF jan_25h]
  by (simp add: interval_elapsed_def transfer_invalid add_recurring_transaction_def
      new_tracker_def fixed_clock_def)

subsection \<open>The listing of the transactions\<close>

text \<open>Splitting what was joined, when no piece holds the separator.\<close>

lemma split_on_plain: "sep \<notin> set x \<Longrightarrow> split_on sep x = [x]"
  by (induction x) auto

lemma split_on_append:
  "sep \<notin> set x \<Longrightarrow> split_on sep (x @ sep # rest) = x # split_on sep rest"
  by (induction x) auto

lemma split_on_join:
  "xs \<noteq> [] \<Longrightarrow> \<forall>x \<in> set xs. sep \<notin> set x \<Longrightarrow> split_on sep (join [sep] xs) = xs"
proof (induction "[sep]" xs rule: join.induct)
  case 1
  then show ?case by simp
next
  case (2 x)
  then show ?case by (simp add: split_on_plain)
next
  case (3 x y ys)
  then show ?case by (simp add: split_on_append)
qed

text \<open>A line holds a newline only if the type or the category does.\<close>

lemma digit_char_in: "digit_char d \<in> set ''0123456789''"
  unfolding digit_char_def by (rule nth_mem) simp

lemma digit_char_not_newline: "digit_char d \<noteq> newline"
  using digit_char_in [of d] by (auto simp add: newline_def)

lemma str_nat_no_newline: "newline \<notin> set (str_nat n)"
proof (induction n rule: str_nat.induct)
  case (1 n)
  show ?case
  proof (cases "n < 10")
    case True
    then have "str_nat n = [digit_char n]"
      by (subst str_nat.simps) simp
    then show ?thesis
      using digit_char_not_newline [of n] by auto
  next
    case False
    then have "str_nat n = str_nat (n div 10) @ [digit_char (n mod 10)]"
      by (subst str_nat.simps) simp
    then show ?thesis
      using 1 [OF False] digit_char_not_newline [of "n mod 10"] by auto
  qed
qed

lemma fmt2f_no_newline: "newline \<notin> set (fmt2f x)"
proof -
  define q where "q = nat (round_half_even (\<bar>x\<bar> * 100))"
  have sign: "newline \<notin> set (if x < 0 then ''-'' else [])"
    by (simp add: newline_def)
  have point: "newline \<notin> set ''.''"
    by (simp add: newline_def)
  have digits: "newline \<notin> set [digit_char (q mod 100 div 10), digit_char (q mod 10)]"
    using digit_char_not_newline [of "q mod 100 div 10"] digit_char_not_newline [of "q mod 10"]
    by auto
  have "fmt2f x = (if x < 0 then ''-'' else []) @ str_nat (q div 100) @ ''.''
                  @ [digit_char (q mod 100 div 10), digit_char (q mod 10)]"
    by (simp add: fmt2f_def q_def Let_def)
  then show ?thesis
    using sign point digits str_nat_no_newline [of "q div 100"]
    by (simp only: set_append Un_iff) blast
qed

lemma lower_char_keeps: "c \<noteq> newline \<Longrightarrow> lower_char c \<noteq> newline"
proof (cases "map_of (zip upper_letters lower_letters) c")
  case None
  then show "c \<noteq> newline \<Longrightarrow> lower_char c \<noteq> newline" by (simp add: lower_char_def)
next
  case (Some d)
  then have "d \<in> set lower_letters"
    by (meson map_of_SomeD set_zip_rightD)
  then have "d \<noteq> newline"
    by (auto simp add: lower_letters_def newline_def)
  with Some show "lower_char c \<noteq> newline" by (simp add: lower_char_def)
qed

lemma upper_char_keeps: "c \<noteq> newline \<Longrightarrow> upper_char c \<noteq> newline"
proof (cases "map_of (zip lower_letters upper_letters) c")
  case None
  then show "c \<noteq> newline \<Longrightarrow> upper_char c \<noteq> newline" by (simp add: upper_char_def)
next
  case (Some d)
  then have "d \<in> set upper_letters"
    by (meson map_of_SomeD set_zip_rightD)
  then have "d \<noteq> newline"
    by (auto simp add: upper_letters_def newline_def)
  with Some show "upper_char c \<noteq> newline" by (simp add: upper_char_def)
qed

lemma lower_no_newline: "newline \<notin> set s \<Longrightarrow> newline \<notin> set (lower s)"
proof
  assume free: "newline \<notin> set s" and "newline \<in> set (lower s)"
  then obtain c where c: "c \<in> set s" "lower_char c = newline"
    unfolding lower_def by auto
  from c(1) free have "c \<noteq> newline"
    by blast
  then have "lower_char c \<noteq> newline"
    by (rule lower_char_keeps)
  with c(2) show False
    by simp
qed

lemma capitalize_no_newline: "newline \<notin> set s \<Longrightarrow> newline \<notin> set (capitalize s)"
proof (cases s)
  case Nil
  then show ?thesis by simp
next
  case (Cons c cs)
  assume "newline \<notin> set s"
  then have "c \<noteq> newline" "newline \<notin> set cs"
    using Cons by auto
  then have "upper_char c \<noteq> newline" "newline \<notin> set (lower cs)"
    by (simp_all add: upper_char_keeps lower_no_newline)
  then show ?thesis
    using Cons by auto
qed

lemma transaction_line_no_newline:
  assumes "newline \<notin> set (type t)" and "newline \<notin> set (category t)"
  shows "newline \<notin> set (transaction_line idx t)"
proof -
  have "newline \<notin> set ''. ''" "newline \<notin> set '': $''" "newline \<notin> set '' (''"
    "newline \<notin> set '')''"
    by (simp_all add: newline_def)
  then show ?thesis
    using assms str_nat_no_newline [of idx] fmt2f_no_newline [of "amount t"]
      capitalize_no_newline [of "type t"]
    unfolding transaction_line_def by (simp only: set_append Un_iff) blast
qed

text \<open>A listing begins with the digit 1.\<close>

lemma str_nat_1: "str_nat (Suc 0) = ''1''"
  by (simp add: str_nat.simps digit_char_def)

lemma hd_join: "x \<noteq> [] \<Longrightarrow> hd (join sep (x # xs)) = hd x"
  by (cases xs) auto

lemma enumerate_from_1:
  "zip [1..<Suc (length (t # ts))] (t # ts) = (1, t) # zip [Suc 1..<Suc (length (t # ts))] ts"
proof -
  have "[1..<Suc (length (t # ts))] = 1 # [Suc 1..<Suc (length (t # ts))]"
    by (rule upt_conv_Cons) simp
  then show ?thesis
    by (simp only: zip_Cons_Cons)
qed

lemma hd_view_transactions:
  assumes "transactions s \<noteq> []"
  shows "hd (view_transactions s) = CHR ''1''"
proof -
  obtain t ts where ts: "transactions s = t # ts"
    using assms by (cases "transactions s") auto
  have "view_transactions s
      = join [newline] (transaction_line 1 t
          # map (\<lambda>(idx, t). transaction_line idx t)
              (zip [Suc 1..<Suc (length (t # ts))] ts))"
    unfolding view_transactions_def ts enumerate_from_1 by simp
  moreover have "transaction_line 1 t \<noteq> []" "hd (transaction_line 1 t) = CHR ''1''"
    by (simp_all add: transaction_line_def str_nat_1)
  ultimately show ?thesis
    by (simp add: hd_join)
qed

lemma line_salary:
  "transaction_line (Suc 0) \<lparr>amount = 50, category = ''Salary'', type = ''income''\<rparr>
   = ''1. Income: $50.00 (Salary)''"
  by (simp add: transaction_line_def fmt_defs lower_defs upper_char_def)

lemma line_rent:
  "transaction_line (Suc (Suc 0)) \<lparr>amount = 600, category = ''Rent'', type = ''Expense''\<rparr>
   = ''2. Expense: $600.00 (Rent)''"
  by (simp add: transaction_line_def fmt_defs lower_defs upper_char_def)

text \<open>
  A category that holds a newline spreads the line of its transaction over two lines:
  one transaction, two lines.
\<close>

theorem newline_in_category_counterexample:
  "transactions (fst (add_transaction new_tracker 5 [CHR ''a'', newline, CHR ''b''] ''income''))
     = [\<lparr>amount = 5, category = [CHR ''a'', newline, CHR ''b''], type = ''income''\<rparr>]
   \<and> split_on newline
       (view_transactions
          (fst (add_transaction new_tracker 5 [CHR ''a'', newline, CHR ''b''] ''income'')))
     = [''1. Income: $5.00 (a'', ''b)'']"
  by (simp add: add_transaction_def append_and_check_def notify_user_def Let_def new_tracker_def lower_defs
      view_transactions_def transaction_line_def fmt_defs upper_char_def newline_def)

text \<open>
  Claim C8, as the code has it. On an empty history \<^verbatim>\<open>view_transactions\<close> returns the
  sentence \<^verbatim>\<open>No transactions recorded.\<close>, which no listing equals. On a history that
  is not empty it returns the entries of the transactions, numbered from 1 in the order
  of insertion and joined by newlines; when no type and no category holds a newline,
  the lines of the result are these entries, one line for each transaction. The method
  reads the tracker and assigns nothing, so it is a function of the tracker alone.
\<close>

theorem view_transactions_listing:
  "(transactions s = [] \<longrightarrow> view_transactions s = ''No transactions recorded.'')
   \<and> (transactions s \<noteq> [] \<longrightarrow>
        view_transactions s \<noteq> ''No transactions recorded.''
      \<and> view_transactions s
          = join [newline]
              (map (\<lambda>(idx, t). transaction_line idx t)
                 (zip [1..<Suc (length (transactions s))] (transactions s))))
   \<and> (transactions s \<noteq> []
      \<and> (\<forall>t \<in> set (transactions s). newline \<notin> set (type t) \<and> newline \<notin> set (category t))
      \<longrightarrow> length (split_on newline (view_transactions s)) = length (transactions s)
        \<and> (\<forall>k < length (transactions s).
              split_on newline (view_transactions s) ! k
              = transaction_line (Suc k) (transactions s ! k)))"
proof (intro conjI impI)
  show "view_transactions s = ''No transactions recorded.''" if "transactions s = []"
    using that by (simp add: view_transactions_def)
  show "view_transactions s \<noteq> ''No transactions recorded.''" if "transactions s \<noteq> []"
    using hd_view_transactions [OF that] by auto
  show "view_transactions s
          = join [newline]
              (map (\<lambda>(idx, t). transaction_line idx t)
                 (zip [1..<Suc (length (transactions s))] (transactions s)))"
    if "transactions s \<noteq> []"
    using that by (simp add: view_transactions_def)
next
  let ?ls = "map (\<lambda>(idx, t). transaction_line idx t)
                 (zip [1..<Suc (length (transactions s))] (transactions s))"
  assume a: "transactions s \<noteq> []
      \<and> (\<forall>t \<in> set (transactions s). newline \<notin> set (type t) \<and> newline \<notin> set (category t))"
  have len: "length ?ls = length (transactions s)"
    by (simp del: upt_Suc)
  have ne: "?ls \<noteq> []"
    using a len by (metis length_0_conv)
  have "\<forall>x \<in> set ?ls. newline \<notin> set x"
  proof
    fix x
    assume "x \<in> set ?ls"
    then obtain idx t where x: "x = transaction_line idx t" and "t \<in> set (transactions s)"
      by (auto dest: set_zip_rightD)
    with a have "newline \<notin> set (type t)" "newline \<notin> set (category t)"
      by simp_all
    then show "newline \<notin> set x"
      unfolding x by (rule transaction_line_no_newline)
  qed
  then have sp: "split_on newline (view_transactions s) = ?ls"
    using a split_on_join [OF ne] by (simp add: view_transactions_def)
  show "length (split_on newline (view_transactions s)) = length (transactions s)"
    unfolding sp by (simp del: upt_Suc)
  show "\<forall>k < length (transactions s).
              split_on newline (view_transactions s) ! k
              = transaction_line (Suc k) (transactions s ! k)"
    unfolding sp by (simp add: nth_upt del: upt_Suc)
qed

theorem view_transactions_listing_witness:
  "transactions new_tracker = []
   \<and> view_transactions new_tracker = ''No transactions recorded.''
   \<and> transactions (new_tracker\<lparr>transactions :=
        [\<lparr>amount = 50, category = ''Salary'', type = ''income''\<rparr>,
         \<lparr>amount = 600, category = ''Rent'', type = ''Expense''\<rparr>]\<rparr>) \<noteq> []
   \<and> newline \<notin> set ''income'' \<and> newline \<notin> set ''Salary''
   \<and> newline \<notin> set ''Expense'' \<and> newline \<notin> set ''Rent''
   \<and> view_transactions (new_tracker\<lparr>transactions :=
        [\<lparr>amount = 50, category = ''Salary'', type = ''income''\<rparr>,
         \<lparr>amount = 600, category = ''Rent'', type = ''Expense''\<rparr>]\<rparr>)
       \<noteq> ''No transactions recorded.''
   \<and> split_on newline (view_transactions (new_tracker\<lparr>transactions :=
        [\<lparr>amount = 50, category = ''Salary'', type = ''income''\<rparr>,
         \<lparr>amount = 600, category = ''Rent'', type = ''Expense''\<rparr>]\<rparr>))
       = [''1. Income: $50.00 (Salary)'', ''2. Expense: $600.00 (Rent)'']"
proof -
  let ?s = "new_tracker\<lparr>transactions :=
        [\<lparr>amount = 50, category = ''Salary'', type = ''income''\<rparr>,
         \<lparr>amount = 600, category = ''Rent'', type = ''Expense''\<rparr>]\<rparr>"
  have tx: "transactions ?s
            = [\<lparr>amount = 50, category = ''Salary'', type = ''income''\<rparr>,
               \<lparr>amount = 600, category = ''Rent'', type = ''Expense''\<rparr>]"
    by simp
  have ne: "transactions ?s \<noteq> []"
    by simp
  have free: "\<forall>t \<in> set (transactions ?s).
                newline \<notin> set (type t) \<and> newline \<notin> set (category t)"
    by (simp add: newline_def)
  have empty: "transactions new_tracker = []"
    by (simp add: new_tracker_def)
  have sentinel: "view_transactions new_tracker = ''No transactions recorded.''"
    using view_transactions_listing [of new_tracker] empty by blast
  have distinct: "view_transactions ?s \<noteq> ''No transactions recorded.''"
    using view_transactions_listing [of ?s] ne by blast
  have len: "length (split_on newline (view_transactions ?s)) = length (transactions ?s)"
    and lines: "\<forall>k < length (transactions ?s).
                  split_on newline (view_transactions ?s) ! k
                  = transaction_line (Suc k) (transactions ?s ! k)"
    using view_transactions_listing [of ?s] ne free by blast+
  have l0: "split_on newline (view_transactions ?s) ! 0 = ''1. Income: $50.00 (Salary)''"
    using lines [rule_format, of 0] unfolding tx by (simp add: line_salary)
  have l1: "split_on newline (view_transactions ?s) ! Suc 0 = ''2. Expense: $600.00 (Rent)''"
    using lines [rule_format, of "Suc 0"] unfolding tx by (simp add: line_rent)
  have "length (split_on newline (view_transactions ?s)) = Suc (Suc 0)"
    using len unfolding tx by simp
  then have "split_on newline (view_transactions ?s)
        = [''1. Income: $50.00 (Salary)'', ''2. Expense: $600.00 (Rent)'']"
    using l0 l1 by (simp add: list_eq_iff_nth_eq less_Suc_eq)
  moreover have "newline \<notin> set ''income''" "newline \<notin> set ''Salary''"
    "newline \<notin> set ''Expense''" "newline \<notin> set ''Rent''"
    by (simp_all add: newline_def)
  ultimately show ?thesis
    using ne empty sentinel distinct by blast
qed

end
